theory Spec2Isabelle
  imports Main "HOL-Library.AList"
begin

section \<open>JavaScript values\<close>

text \<open>
  \<^verbatim>\<open>LiveFile.js\<close> is untyped: the constructor stores whatever renderer it is given,
  \<^verbatim>\<open>handle\<close> stores whatever handler it is given, and \<^verbatim>\<open>set_renderer\<close> asks
  \<^verbatim>\<open>typeof\<close>. The values are therefore a tagged union. Numbers are integers:
  \<^verbatim>\<open>Date.now()\<close> yields whole milliseconds and \<^verbatim>\<open>watcher_delay\<close> is a number of
  milliseconds (a double represents every integer below \<open>2 ^ 53\<close> exactly). A function is
  known by its identity only; an object literal is its list of own data properties, with
  \<^verbatim>\<open>Object.prototype\<close> as its prototype.
\<close>

datatype fn =
    DefaultReload          \<comment> \<open>\<^verbatim>\<open>(content) => {}\<close> of the field initialiser\<close>
  | DefaultError           \<comment> \<open>\<^verbatim>\<open>(error) => {}\<close> of the field initialiser\<close>
  | Intrinsic string       \<comment> \<open>a built-in method of \<^verbatim>\<open>Object.prototype\<close>, by its property name\<close>
  | User nat               \<comment> \<open>a function of the caller\<close>

datatype jsval =
    Undefined
  | Null
  | Boolean bool
  | Number int
  | Str string
  | Function fn
  | Object "(string \<times> jsval) list"
  | ObjectPrototype        \<comment> \<open>the object \<^verbatim>\<open>Object.prototype\<close> itself\<close>

datatype exn =
    Error string           \<comment> \<open>\<^verbatim>\<open>throw new Error(message)\<close>\<close>
  | TypeError              \<comment> \<open>raised by the language: calling what is not a function, reading a property of undefined\<close>
  | Thrown jsval           \<comment> \<open>whatever a function of the caller throws\<close>

fun typeof :: "jsval \<Rightarrow> string" where
  "typeof Undefined = ''undefined''"
| "typeof Null = ''object''"
| "typeof (Boolean b) = ''boolean''"
| "typeof (Number n) = ''number''"
| "typeof (Str s) = ''string''"
| "typeof (Function f) = ''function''"
| "typeof (Object ps) = ''object''"
| "typeof ObjectPrototype = ''object''"

text \<open>\<^verbatim>\<open>v == undefined\<close>: loose equality holds for \<^verbatim>\<open>undefined\<close> and \<^verbatim>\<open>null\<close> only.\<close>

fun eq_undefined :: "jsval \<Rightarrow> bool" where
  "eq_undefined Undefined = True"
| "eq_undefined Null = True"
| "eq_undefined v = False"

text \<open>Truthiness, as \<^verbatim>\<open>if (error)\<close> and \<^verbatim>\<open>result && touch\<close> read it.\<close>

fun truthy :: "jsval \<Rightarrow> bool" where
  "truthy Undefined = False"
| "truthy Null = False"
| "truthy (Boolean b) = b"
| "truthy (Number n) = (n \<noteq> 0)"
| "truthy (Str s) = (s \<noteq> [])"
| "truthy v = True"

text \<open>A parameter with a default (\<^verbatim>\<open>options = {}\<close>, \<^verbatim>\<open>touch = true\<close>) takes the default
  when the argument is missing or \<^verbatim>\<open>undefined\<close>.\<close>

definition default_arg :: "jsval \<Rightarrow> jsval \<Rightarrow> jsval" where
  "default_arg v d = (if v = Undefined then d else v)"

text \<open>Whether the setter of \<^verbatim>\<open>__proto__\<close> accepts the value: an object or \<^verbatim>\<open>null\<close>.\<close>

fun object_or_null :: "jsval \<Rightarrow> bool" where
  "object_or_null Null = True"
| "object_or_null (Function f) = True"
| "object_or_null (Object ps) = True"
| "object_or_null ObjectPrototype = True"
| "object_or_null v = False"

section \<open>The handlers object\<close>

text \<open>
  \<^verbatim>\<open>#handlers\<close> is an object literal, so \<^verbatim>\<open>this.#handlers[type]\<close> is a property read
  that walks the prototype chain, and \<^verbatim>\<open>this.#handlers[type] = handler\<close> is a property
  write in strict code (a class body). The object has its own data properties, in
  insertion order, and a prototype, which is \<^verbatim>\<open>Object.prototype\<close> until the accessor
  \<^verbatim>\<open>__proto__\<close> replaces it. A function installed as prototype is read as an object
  without own properties: what it inherits from \<^verbatim>\<open>Function.prototype\<close> is not modelled.
\<close>

record jsobject =
  own :: "(string \<times> jsval) list"
  proto :: jsval

datatype found = Data jsval | ProtoAccessor | Missing

definition object_prototype_methods :: "string list" where
  "object_prototype_methods =
     [''constructor'', ''__defineGetter__'', ''__defineSetter__'', ''hasOwnProperty'',
      ''__lookupGetter__'', ''__lookupSetter__'', ''isPrototypeOf'', ''propertyIsEnumerable'',
      ''toString'', ''valueOf'', ''toLocaleString'']"

definition in_object_prototype :: "string \<Rightarrow> found" where
  "in_object_prototype k =
     (if k = ''__proto__'' then ProtoAccessor
      else if k \<in> set object_prototype_methods then Data (Function (Intrinsic k))
      else Missing)"

fun inherited :: "jsval \<Rightarrow> string \<Rightarrow> found" where
  "inherited ObjectPrototype k = in_object_prototype k"
| "inherited (Object ps) k =
     (case map_of ps k of Some v \<Rightarrow> Data v | None \<Rightarrow> in_object_prototype k)"
| "inherited (Function f) k = in_object_prototype k"
| "inherited v k = Missing"

definition get_prop :: "jsobject \<Rightarrow> string \<Rightarrow> jsval" where
  "get_prop obj k =
     (case map_of (own obj) k of
        Some v \<Rightarrow> v
      | None \<Rightarrow>
          (case inherited (proto obj) k of
             Data v \<Rightarrow> v
           | ProtoAccessor \<Rightarrow> proto obj
           | Missing \<Rightarrow> Undefined))"

definition put_prop :: "jsobject \<Rightarrow> string \<Rightarrow> jsval \<Rightarrow> jsobject" where
  "put_prop obj k v =
     (case map_of (own obj) k of
        Some old \<Rightarrow> obj\<lparr>own := AList.update k v (own obj)\<rparr>
      | None \<Rightarrow>
          (case inherited (proto obj) k of
             ProtoAccessor \<Rightarrow> (if object_or_null v then obj\<lparr>proto := v\<rparr> else obj)
           | _ \<Rightarrow> obj\<lparr>own := AList.update k v (own obj)\<rparr>))"

definition default_handlers :: jsobject where
  "default_handlers =
     \<lparr>own = [(''reload'', Function DefaultReload), (''error'', Function DefaultError)],
      proto = ObjectPrototype\<rparr>"

section \<open>The instance and the runtime around it\<close>

text \<open>
  The first seven fields are the private fields of the class. \<^verbatim>\<open>#watcher\<close> is a reference
  to an \<^verbatim>\<open>FSWatcher\<close>; the watchers themselves live in the store \<open>watchers\<close>, since
  \<^verbatim>\<open>_init_watcher\<close> can be called again and the watcher it replaces stays open.
  The other fields belong to the runtime. \<open>pending\<close> counts the reads that were issued
  and have not completed. \<open>leaked\<close> says that the caller's code holds a reference to
  \<^verbatim>\<open>#handlers\<close>: a handler is called as a method of that object and so receives it as
  \<^verbatim>\<open>this\<close>. \<open>effects\<close> is what the instance asked of the outside, in order: the reads it
  issued with \<^verbatim>\<open>FileSystem.readFile\<close> and the calls of the caller's functions.
\<close>

record fswatcher =
  target :: string
  closed :: bool

datatype effect = ReadFile string | Call fn "jsval list"

record LiveFile =
  path :: string
  content :: jsval
  watcher :: "nat option"
  watcher_delay :: int
  last_update :: int
  renderer :: jsval
  handlers :: jsobject
  watchers :: "fswatcher list"
  pending :: nat
  leaked :: bool
  effects :: "effect list"

text \<open>A method either throws or returns a value, and leaves a state.\<close>

type_synonym outcome = "(exn + jsval) \<times> LiveFile"

text \<open>
  The functions of the caller are given by what they do. Called as the renderer, a
  function returns or throws. Called as a handler it is a method of \<^verbatim>\<open>#handlers\<close>: it
  receives that object and, unless it is an arrow function, can write it, so it also
  gives the object as it leaves it (any own data properties and any prototype; accessors
  and frozen objects are not modelled).
\<close>

type_synonym callee = "fn \<Rightarrow> jsval list \<Rightarrow> exn + jsval"

type_synonym handler_fn = "fn \<Rightarrow> jsobject \<Rightarrow> jsval list \<Rightarrow> (exn + jsval) \<times> jsobject"

text \<open>
  A call \<^verbatim>\<open>f(args)\<close>. Every call of a caller's function in the class is the last thing
  its method or callback does, so whatever that function does to the instance through
  the methods of the instance is a later operation.
\<close>

definition call :: "callee \<Rightarrow> jsval \<Rightarrow> jsval list \<Rightarrow> LiveFile \<Rightarrow> outcome" where
  "call \<rho> f args s =
     (case f of
        Function g \<Rightarrow> (\<rho> g args, s\<lparr>effects := effects s @ [Call g args]\<rparr>)
      | _ \<Rightarrow> (Inl TypeError, s))"

text \<open>The two handlers of the field initialiser are arrow functions with an empty body:
  they return \<^verbatim>\<open>undefined\<close> and touch nothing.\<close>

fun is_default :: "fn \<Rightarrow> bool" where
  "is_default DefaultReload = True"
| "is_default DefaultError = True"
| "is_default g = False"

definition invoke :: "handler_fn \<Rightarrow> fn \<Rightarrow> jsobject \<Rightarrow> jsval list \<Rightarrow> (exn + jsval) \<times> jsobject" where
  "invoke \<eta> g this args = (if is_default g then (Inr Undefined, this) else \<eta> g this args)"

text \<open>A method call \<^verbatim>\<open>this.#handlers.k(args)\<close>: the property is read, and what is found
  is called with \<^verbatim>\<open>#handlers\<close> as its receiver.\<close>

definition call_method :: "handler_fn \<Rightarrow> string \<Rightarrow> jsval list \<Rightarrow> LiveFile \<Rightarrow> outcome" where
  "call_method \<eta> k args s =
     (case get_prop (handlers s) k of
        Function g \<Rightarrow>
          (fst (invoke \<eta> g (handlers s) args),
           s\<lparr>handlers := snd (invoke \<eta> g (handlers s) args),
             leaked := (leaked s \<or> \<not> is_default g),
             effects := effects s @ [Call g args]\<rparr>)
      | _ \<Rightarrow> (Inl TypeError, s))"

section \<open>The methods\<close>

definition set_content :: "jsval \<Rightarrow> LiveFile \<Rightarrow> outcome" where
  "set_content c s = (Inr Undefined, s\<lparr>content := c\<rparr>)"

definition set_renderer :: "jsval \<Rightarrow> LiveFile \<Rightarrow> outcome" where
  "set_renderer r s =
     (if typeof r \<noteq> ''function''
      then (Inl (Error ''set_renderer(renderer) -> renderer must be a Function -> (content, options) => {}''), s)
      else (Inr Undefined, s\<lparr>renderer := r\<rparr>))"

definition render :: "callee \<Rightarrow> jsval \<Rightarrow> LiveFile \<Rightarrow> outcome" where
  "render \<rho> opts s =
     (let options = default_arg opts (Object [])
      in call \<rho> (renderer s) [content s, options] s)"

definition handle :: "string \<Rightarrow> jsval \<Rightarrow> LiveFile \<Rightarrow> outcome" where
  "handle type handler s =
     (if eq_undefined (get_prop (handlers s) type)
      then (Inl (Error (type @ '' event is not supported on LiveFile.'')), s)
      else (Inr Undefined, s\<lparr>handlers := put_prop (handlers s) type handler\<rparr>))"

text \<open>\<open>now1\<close> and \<open>now2\<close> are the two readings of \<^verbatim>\<open>Date.now()\<close>, in the order of the
  calls; the second is taken only when the check passes and \<^verbatim>\<open>touch\<close> is set.\<close>

definition delay_check :: "jsval \<Rightarrow> int \<Rightarrow> int \<Rightarrow> LiveFile \<Rightarrow> outcome" where
  "delay_check touch now1 now2 s =
     (let touch = default_arg touch (Boolean True);
          lu = last_update s;
          wd = watcher_delay s;
          result = (now1 - lu > wd)
      in (Inr (Boolean result),
          if result \<and> truthy touch then s\<lparr>last_update := now2\<rparr> else s))"

text \<open>\<^verbatim>\<open>FileSystem.readFile\<close> with a callback returns at once; the read is in flight
  until the runtime runs the callback.\<close>

definition reload_content :: "LiveFile \<Rightarrow> outcome" where
  "reload_content s =
     (Inr Undefined,
      s\<lparr>pending := Suc (pending s), effects := effects s @ [ReadFile (path s)]\<rparr>)"

text \<open>The callback given to \<^verbatim>\<open>FileSystem.readFile\<close>, run when the read completes.\<close>

definition read_callback :: "handler_fn \<Rightarrow> jsval \<Rightarrow> jsval \<Rightarrow> LiveFile \<Rightarrow> outcome" where
  "read_callback \<eta> err c s =
     (if truthy err then call_method \<eta> ''error'' [err] s
      else
        (let s1 = s\<lparr>content := c\<rparr>
         in case call_method \<eta> ''reload'' [c] s1 of
              (Inl e, s2) \<Rightarrow> (Inl e, s2)
            | (Inr v, s2) \<Rightarrow> (Inr Undefined, s2)))"

text \<open>The listener given to \<^verbatim>\<open>FileSystem.watch\<close>, and the listener of the watcher's
  \<^verbatim>\<open>error\<close> event.\<close>

definition watch_listener :: "int \<Rightarrow> int \<Rightarrow> LiveFile \<Rightarrow> outcome" where
  "watch_listener now1 now2 s =
     (case delay_check Undefined now1 now2 s of
        (Inl e, s1) \<Rightarrow> (Inl e, s1)
      | (Inr r, s1) \<Rightarrow>
          (if truthy r
           then (case reload_content s1 of
                   (Inl e, s2) \<Rightarrow> (Inl e, s2)
                 | (Inr v, s2) \<Rightarrow> (Inr Undefined, s2))
           else (Inr Undefined, s1)))"

definition watch_error_listener :: "handler_fn \<Rightarrow> jsval \<Rightarrow> LiveFile \<Rightarrow> outcome" where
  "watch_error_listener \<eta> err s = call_method \<eta> ''error'' [err] s"

text \<open>
  \<^verbatim>\<open>FileSystem.watch\<close> either returns a new, open watcher on the path or throws at once
  (it does when the path does not exist). Which of the two is an input, \<open>thrown\<close>: the
  error it throws, if any. When it throws, \<^verbatim>\<open>#watcher\<close> is not assigned.
\<close>

definition init_watcher :: "exn option \<Rightarrow> LiveFile \<Rightarrow> outcome" where
  "init_watcher thrown s =
     (case thrown of
        Some e \<Rightarrow> (Inl e, s)
      | None \<Rightarrow>
          (Inr Undefined,
           s\<lparr>watcher := Some (length (watchers s)),
             watchers := watchers s @ [\<lparr>target = path s, closed = False\<rparr>]\<rparr>))"

definition destroy :: "LiveFile \<Rightarrow> outcome" where
  "destroy s =
     (case watcher s of
        None \<Rightarrow> (Inl TypeError, s)
      | Some w \<Rightarrow>
          (Inr Undefined,
           s\<lparr>watchers := (watchers s)[w := (watchers s ! w)\<lparr>closed := True\<rparr>],
             content := Str ''''\<rparr>))"

definition get_path :: "LiveFile \<Rightarrow> outcome" where
  "get_path s = (Inr (Str (path s)), s)"

definition get_content :: "LiveFile \<Rightarrow> outcome" where
  "get_content s = (Inr (content s), s)"

definition get_last_update :: "LiveFile \<Rightarrow> outcome" where
  "get_last_update s = (Inr (Number (last_update s)), s)"

text \<open>
  \<^verbatim>\<open>new LiveFile({ path, watcher_delay, renderer })\<close> at the clock reading \<open>now\<close>, where
  \<open>thrown\<close> is what \<^verbatim>\<open>FileSystem.watch\<close> throws, if anything. The constructor catches
  nothing: when \<^verbatim>\<open>_init_watcher\<close> throws there is no instance, and what is left is the
  error and what had been asked of the outside until then.
\<close>

datatype construction = Constructed (created: LiveFile) | Failed exn "effect list"

definition constructor :: "string \<Rightarrow> int \<Rightarrow> jsval \<Rightarrow> int \<Rightarrow> exn option \<Rightarrow> construction" where
  "constructor p wd r now thrown =
     (let s0 = \<lparr>path = p, content = Undefined, watcher = None, watcher_delay = wd,
                last_update = now - wd, renderer = r, handlers = default_handlers,
                watchers = [], pending = 0, leaked = False, effects = []\<rparr>
      in case init_watcher thrown s0 of
           (Inl e, s1) \<Rightarrow> Failed e (effects s1)
         | (Inr v, s1) \<Rightarrow>
             (case reload_content s1 of
                (Inl e, s2) \<Rightarrow> Failed e (effects s2)
              | (Inr u, s2) \<Rightarrow> Constructed s2))"

section \<open>The event loop\<close>

text \<open>
  The runtime is taken by its contract. A watcher that has been closed emits nothing;
  an open one may emit a change or an error at any time. A read in flight completes
  with an error or with the content, once. The caller can call the methods at any time,
  and can write \<^verbatim>\<open>#handlers\<close> once it holds a reference to it.
\<close>

definition emits :: "nat \<Rightarrow> LiveFile \<Rightarrow> bool" where
  "emits w s = (w < length (watchers s) \<and> \<not> closed (watchers s ! w))"

datatype op =
    Set_content jsval
  | Set_renderer jsval
  | Render jsval
  | Handle string jsval
  | Delay_check jsval int int
  | Init_watcher "exn option"
  | Reload_content
  | Destroy
  | Get_path
  | Get_content
  | Get_last_update
  | Watch_change nat int int     \<comment> \<open>watcher, and the two clock readings of its check\<close>
  | Watch_error nat jsval
  | Read_done jsval jsval        \<comment> \<open>\<^verbatim>\<open>callback(error, content)\<close>\<close>
  | Caller_writes jsobject       \<comment> \<open>the caller's code leaves \<^verbatim>\<open>#handlers\<close> as this object\<close>

fun step :: "callee \<Rightarrow> handler_fn \<Rightarrow> op \<Rightarrow> LiveFile \<Rightarrow> outcome" where
  "step \<rho> \<eta> (Set_content c) s = set_content c s"
| "step \<rho> \<eta> (Set_renderer r) s = set_renderer r s"
| "step \<rho> \<eta> (Render opts) s = render \<rho> opts s"
| "step \<rho> \<eta> (Handle type handler) s = handle type handler s"
| "step \<rho> \<eta> (Delay_check touch now1 now2) s = delay_check touch now1 now2 s"
| "step \<rho> \<eta> (Init_watcher thrown) s = init_watcher thrown s"
| "step \<rho> \<eta> Reload_content s = reload_content s"
| "step \<rho> \<eta> Destroy s = destroy s"
| "step \<rho> \<eta> Get_path s = get_path s"
| "step \<rho> \<eta> Get_content s = get_content s"
| "step \<rho> \<eta> Get_last_update s = get_last_update s"
| "step \<rho> \<eta> (Watch_change w now1 now2) s =
     (if emits w s then watch_listener now1 now2 s else (Inr Undefined, s))"
| "step \<rho> \<eta> (Watch_error w err) s =
     (if emits w s then watch_error_listener \<eta> err s else (Inr Undefined, s))"
| "step \<rho> \<eta> (Read_done err c) s =
     (if 0 < pending s then read_callback \<eta> err c (s\<lparr>pending := pending s - 1\<rparr>)
      else (Inr Undefined, s))"
| "step \<rho> \<eta> (Caller_writes obj) s =
     (Inr Undefined, if leaked s then s\<lparr>handlers := obj\<rparr> else s)"

text \<open>A run of operations; one that throws leaves the state it had reached.\<close>

fun run :: "callee \<Rightarrow> handler_fn \<Rightarrow> op list \<Rightarrow> LiveFile \<Rightarrow> LiveFile" where
  "run \<rho> \<eta> [] s = s"
| "run \<rho> \<eta> (x # xs) s = run \<rho> \<eta> xs (snd (step \<rho> \<eta> x s))"

text \<open>The clock readings of a run, in the order they are taken.\<close>

fun readings :: "op \<Rightarrow> int list" where
  "readings (Delay_check touch now1 now2) = [now1, now2]"
| "readings (Watch_change w now1 now2) = [now1, now2]"
| "readings x = []"

text \<open>The operations that are the runtime's: what a watcher emits, and a read completing.\<close>

fun is_event :: "op \<Rightarrow> bool" where
  "is_event (Watch_change w now1 now2) = True"
| "is_event (Watch_error w err) = True"
| "is_event (Read_done err c) = True"
| "is_event x = False"

text \<open>The objects that the caller's code, outside any call, leaves \<^verbatim>\<open>#handlers\<close> as.\<close>

fun written :: "op \<Rightarrow> jsobject list" where
  "written (Caller_writes obj) = [obj]"
| "written x = []"

text \<open>The reference \<^verbatim>\<open>#watcher\<close> of an instance points into the store.\<close>

definition watcher_valid :: "LiveFile \<Rightarrow> bool" where
  "watcher_valid s = (case watcher s of None \<Rightarrow> False | Some w \<Rightarrow> w < length (watchers s))"

text \<open>Nothing is left for the runtime to deliver: no read is in flight and every
  watcher is closed.\<close>

definition quiescent :: "LiveFile \<Rightarrow> bool" where
  "quiescent s = (pending s = 0 \<and> list_all closed (watchers s))"

section \<open>Fixtures for the concrete cases\<close>

text \<open>Whether a value can be called: JavaScript's \<^verbatim>\<open>typeof v === 'function'\<close>.\<close>

fun is_callable :: "jsval \<Rightarrow> bool" where
  "is_callable (Function f) = True"
| "is_callable v = False"

text \<open>Functions of a caller. As renderers: one returns nothing, one returns the options
  it was given. As handlers: one returns nothing and leaves its receiver alone; one,
  written \<^verbatim>\<open>function () { this.reload = f }\<close>, stores a function of its own under
  \<open>reload\<close>.\<close>

definition returns_undefined :: callee where
  "returns_undefined f args = Inr Undefined"

definition echo_options :: callee where
  "echo_options f args = (case args of [c, options] \<Rightarrow> Inr options | _ \<Rightarrow> Inr Undefined)"

definition quiet :: handler_fn where
  "quiet f this args = (Inr Undefined, this)"

definition rebinds_reload :: handler_fn where
  "rebinds_reload f this args = (Inr Undefined, put_prop this ''reload'' (Function (User 8)))"

section \<open>Basic facts\<close>

lemmas method_defs = set_content_def set_renderer_def render_def handle_def delay_check_def
  reload_content_def read_callback_def watch_listener_def watch_error_listener_def
  init_watcher_def destroy_def get_path_def get_content_def get_last_update_def call_def
  call_method_def

lemma typeof_function: "typeof v = ''function'' \<longleftrightarrow> is_callable v"
  by (cases v) simp_all

lemma constructor_state:
  "constructor p wd r now None =
     Constructed
       \<lparr>path = p, content = Undefined, watcher = Some 0, watcher_delay = wd,
        last_update = now - wd, renderer = r, handlers = default_handlers,
        watchers = [\<lparr>target = p, closed = False\<rparr>], pending = 1, leaked = False,
        effects = [ReadFile p]\<rparr>"
  by (simp add: constructor_def init_watcher_def reload_content_def Let_def)

lemma constructor_throws: "constructor p wd r now (Some e) = Failed e []"
  by (simp add: constructor_def init_watcher_def Let_def)

lemma inherited_accessor: "inherited p k = ProtoAccessor \<Longrightarrow> k = ''__proto__''"
  by (cases p) (auto simp add: in_object_prototype_def split: option.splits if_splits)

lemma put_prop_own:
  "inherited (proto obj) k \<noteq> ProtoAccessor \<or> map_of (own obj) k \<noteq> None \<Longrightarrow>
   map_of (own (put_prop obj k v)) k = Some v"
  by (auto simp add: put_prop_def update_conv' split: option.splits found.splits)

lemma get_prop_own: "map_of (own obj) k = Some v \<Longrightarrow> get_prop obj k = v"
  by (simp add: get_prop_def)

section \<open>The debounce check\<close>

text \<open>
  C1. The check returns true exactly when the clock reading minus \<open>last_update\<close> exceeds
  \<open>watcher_delay\<close>. When it returns true and \<open>touch\<close> is set (it is by default),
  \<open>last_update\<close> becomes the clock reading, inside the check; otherwise the state is
  the one before.
\<close>

theorem delay_check_spec:
  "fst (delay_check touch now1 now2 s) = Inr (Boolean (now1 - last_update s > watcher_delay s))
   \<and> snd (delay_check touch now1 now2 s) =
       (if now1 - last_update s > watcher_delay s \<and> truthy (default_arg touch (Boolean True))
        then s\<lparr>last_update := now2\<rparr> else s)"
  by (simp add: delay_check_def Let_def)

section \<open>Reloading\<close>



section \<open>The worked example of the debounce policy\<close>

text \<open>
  C3, as amended. With a delay of 100, construction at 0 and changes at 50 and 150:
  construction issues its read without asking the check and sets \<open>last_update\<close> to -100;
  the change at 50 passes the check (150 has elapsed since -100), issues a read and sets
  \<open>last_update\<close> to 50; the change at 150 does not pass (100 has elapsed, which does not
  exceed 100) and nothing is read.
\<close>

theorem debounce_example:
  "effects (created (constructor p 100 r 0 None)) = [ReadFile p]
   \<and> last_update (created (constructor p 100 r 0 None)) = - 100
   \<and> step \<rho> \<eta> (Watch_change 0 50 50) (created (constructor p 100 r 0 None)) =
       (Inr Undefined,
        (created (constructor p 100 r 0 None))
          \<lparr>last_update := 50, pending := 2, effects := [ReadFile p, ReadFile p]\<rparr>)
   \<and> step \<rho> \<eta> (Watch_change 0 150 150)
         ((created (constructor p 100 r 0 None))
            \<lparr>last_update := 50, pending := 2, effects := [ReadFile p, ReadFile p]\<rparr>) =
       (Inr Undefined,
        (created (constructor p 100 r 0 None))
          \<lparr>last_update := 50, pending := 2, effects := [ReadFile p, ReadFile p]\<rparr>)"
  by (simp add: constructor_state emits_def watch_listener_def delay_check_def reload_content_def
      default_arg_def Let_def)

text \<open>The example as the specification has it (50 rejected, 150 accepted) does not hold.\<close>

theorem debounce_example_counterexample:
  "\<not> (fst (delay_check Undefined 50 50 (created (constructor ''a.txt'' 100 Undefined 0 None))) =
        Inr (Boolean False)
      \<and> fst (delay_check Undefined 150 150
               (snd (delay_check Undefined 50 50
                      (created (constructor ''a.txt'' 100 Undefined 0 None))))) =
          Inr (Boolean True))"
  by (simp add: constructor_state delay_check_def default_arg_def Let_def)

section \<open>Registering handlers\<close>

text \<open>What \<open>handle\<close> does, by the value it finds under the kind.\<close>

lemma handle_rejects:
  "eq_undefined (get_prop (handlers s) type) \<Longrightarrow>
   handle type handler s = (Inl (Error (type @ '' event is not supported on LiveFile.'')), s)"
  by (simp add: handle_def)

lemma handle_accepts:
  "\<not> eq_undefined (get_prop (handlers s) type) \<Longrightarrow>
   handle type handler s = (Inr Undefined, s\<lparr>handlers := put_prop (handlers s) type handler\<rparr>)"
  by (simp add: handle_def)

lemma handle_new_instance_rejects:
  "type \<notin> {''reload'', ''error'', ''__proto__''} \<union> set object_prototype_methods \<Longrightarrow>
   handle type handler (created (constructor p wd r now None)) =
     (Inl (Error (type @ '' event is not supported on LiveFile.'')),
      created (constructor p wd r now None))"
  by (rule handle_rejects)
     (simp add: constructor_state default_handlers_def get_prop_def in_object_prototype_def)

lemma handle_replaces:
  "k = ''reload'' \<or> k = ''error'' \<Longrightarrow> \<not> eq_undefined (get_prop (handlers s) k) \<Longrightarrow>
   fst (handle k handler s) = Inr Undefined \<and>
   get_prop (handlers (snd (handle k handler s))) k = handler"
proof -
  assume k: "k = ''reload'' \<or> k = ''error''" and d: "\<not> eq_undefined (get_prop (handlers s) k)"
  from k have "k \<noteq> ''__proto__''" by auto
  then have "inherited (proto (handlers s)) k \<noteq> ProtoAccessor"
    using inherited_accessor by blast
  then have "map_of (own (put_prop (handlers s) k handler)) k = Some handler"
    by (simp add: put_prop_own)
  then show ?thesis
    by (simp add: handle_accepts [OF d] get_prop_own)
qed

text \<open>
  C4. The kinds other than \<open>reload\<close> and \<open>error\<close> are to be rejected. The kind
  \<open>toString\<close> is not: the property read finds the method that the handlers object
  inherits from \<^verbatim>\<open>Object.prototype\<close>, so \<open>handle\<close> returns normally and the handler
  becomes a third property of the handlers object.
\<close>

theorem handle_inherited_kind:
  "handle ''toString'' handler (created (constructor p wd r now None)) =
     (Inr Undefined,
      (created (constructor p wd r now None))
        \<lparr>handlers :=
           \<lparr>own = [(''reload'', Function DefaultReload), (''error'', Function DefaultError),
                   (''toString'', handler)],
            proto = ObjectPrototype\<rparr>\<rparr>)"
  by (simp add: handle_def constructor_state default_handlers_def get_prop_def put_prop_def
      in_object_prototype_def object_prototype_methods_def)

section \<open>Construction\<close>

text \<open>
  C5, as amended. When \<^verbatim>\<open>FileSystem.watch\<close> does not throw, construction gives an
  instance: it sets \<open>last_update\<close> to the clock reading minus \<open>watcher_delay\<close>, starts one
  watcher on the path, which is open, and issues exactly one read, whatever
  \<open>watcher_delay\<close> is: the check is not asked, and \<open>last_update\<close> is not touched again.
  When \<^verbatim>\<open>FileSystem.watch\<close> throws, the constructor throws that error: there is no
  instance and nothing was read.
\<close>

theorem constructor_spec:
  "constructor p wd r now None = Constructed (created (constructor p wd r now None))
   \<and> last_update (created (constructor p wd r now None)) = now - wd
   \<and> watcher (created (constructor p wd r now None)) = Some 0
   \<and> watchers (created (constructor p wd r now None)) = [\<lparr>target = p, closed = False\<rparr>]
   \<and> emits 0 (created (constructor p wd r now None))
   \<and> effects (created (constructor p wd r now None)) = [ReadFile p]
   \<and> pending (created (constructor p wd r now None)) = 1
   \<and> path (created (constructor p wd r now None)) = p
   \<and> watcher_delay (created (constructor p wd r now None)) = wd
   \<and> renderer (created (constructor p wd r now None)) = r
   \<and> content (created (constructor p wd r now None)) = Undefined
   \<and> handlers (created (constructor p wd r now None)) = default_handlers
   \<and> constructor p wd r now (Some e) = Failed e []"
  by (simp add: constructor_state constructor_throws emits_def)

text \<open>On a path that does not exist \<^verbatim>\<open>FileSystem.watch\<close> throws, and with it the
  constructor: no watcher, no read, no instance.\<close>

theorem constructor_counterexample:
  "constructor ''missing.txt'' 100 Undefined 0
     (Some (Error ''ENOENT: no such file or directory, watch'')) =
   Failed (Error ''ENOENT: no such file or directory, watch'') []"
  by (simp add: constructor_def init_watcher_def Let_def)

section \<open>The renderer\<close>

text \<open>
  C6. Given a value that is not callable, \<open>set_renderer\<close> throws at once and the state,
  the renderer with it, is the one before. Given a callable one, it stores it, and the
  next \<open>render\<close> calls it.
\<close>

theorem set_renderer_spec:
  "(\<not> is_callable r \<longrightarrow>
      set_renderer r s =
        (Inl (Error ''set_renderer(renderer) -> renderer must be a Function -> (content, options) => {}''), s))
   \<and> (is_callable r \<longrightarrow>
      set_renderer r s = (Inr Undefined, s\<lparr>renderer := r\<rparr>)
      \<and> render \<rho> opts (snd (set_renderer r s)) =
          call \<rho> r [content s, default_arg opts (Object [])] (s\<lparr>renderer := r\<rparr>))"
  by (simp add: set_renderer_def render_def typeof_function Let_def)

theorem set_renderer_spec_witness:
  "\<not> is_callable (Number 3)
   \<and> renderer (snd (set_renderer (Number 3)
        (created (constructor ''a.txt'' 100 (Function (User 0)) 0 None)))) = Function (User 0)
   \<and> (\<exists>m. fst (set_renderer (Number 3)
        (created (constructor ''a.txt'' 100 (Function (User 0)) 0 None))) = Inl (Error m))
   \<and> is_callable (Function (User 7))
   \<and> fst (render echo_options (Str ''o'')
            (snd (set_renderer (Function (User 7))
               (created (constructor ''a.txt'' 100 (Function (User 0)) 0 None))))) =
       Inr (Str ''o'')
   \<and> effects (snd (render echo_options (Str ''o'')
            (snd (set_renderer (Function (User 7))
               (created (constructor ''a.txt'' 100 (Function (User 0)) 0 None)))))) =
       [ReadFile ''a.txt'', Call (User 7) [Undefined, Str ''o'']]"
proof -
  let ?s = "created (constructor ''a.txt'' 100 (Function (User 0)) 0 None)"
  have n: "\<not> is_callable (Number 3)" and c: "is_callable (Function (User 7))" by simp_all
  from set_renderer_spec [of "Number 3" ?s] n
  have 1: "set_renderer (Number 3) ?s =
      (Inl (Error ''set_renderer(renderer) -> renderer must be a Function -> (content, options) => {}''), ?s)"
    by blast
  from set_renderer_spec [of "Function (User 7)" ?s echo_options "Str ''o''"] c
  have 2: "render echo_options (Str ''o'') (snd (set_renderer (Function (User 7)) ?s)) =
      call echo_options (Function (User 7)) [content ?s, default_arg (Str ''o'') (Object [])]
        (?s\<lparr>renderer := Function (User 7)\<rparr>)"
    by blast
  have 3: "renderer ?s = Function (User 0)" and 4: "content ?s = Undefined"
    and 5: "effects ?s = [ReadFile ''a.txt'']"
    by (simp_all add: constructor_state)
  have a: "renderer (snd (set_renderer (Number 3) ?s)) = Function (User 0)"
    by (simp add: 1 3)
  have b: "\<exists>m. fst (set_renderer (Number 3) ?s) = Inl (Error m)"
    by (simp add: 1)
  have d: "fst (render echo_options (Str ''o'') (snd (set_renderer (Function (User 7)) ?s))) =
      Inr (Str ''o'')"
    by (simp add: 2 call_def default_arg_def echo_options_def)
  have e: "effects (snd (render echo_options (Str ''o'') (snd (set_renderer (Function (User 7)) ?s)))) =
      [ReadFile ''a.txt'', Call (User 7) [Undefined, Str ''o'']]"
    by (simp add: 2 4 5 call_def default_arg_def)
  from n c a b d e show ?thesis by blast
qed

text \<open>
  C7, as amended. \<open>render\<close> calls the stored renderer with the content and with the
  options, where options that are missing or \<^verbatim>\<open>undefined\<close> are replaced by an empty
  object; for every other options value the renderer gets exactly that value. The result
  of the call is the result of \<open>render\<close>. Nothing is cached: a second \<open>render\<close> calls
  the renderer again, with the same arguments, and so returns the same.
\<close>

theorem render_spec:
  "render \<rho> opts s = call \<rho> (renderer s) [content s, default_arg opts (Object [])] s
   \<and> (opts \<noteq> Undefined \<longrightarrow> render \<rho> opts s = call \<rho> (renderer s) [content s, opts] s)
   \<and> (\<forall>f. renderer s = Function f \<longrightarrow>
         fst (render \<rho> opts s) = \<rho> f [content s, default_arg opts (Object [])]
         \<and> snd (render \<rho> opts s) =
             s\<lparr>effects := effects s @ [Call f [content s, default_arg opts (Object [])]]\<rparr>
         \<and> fst (render \<rho> opts (snd (render \<rho> opts s))) = fst (render \<rho> opts s)
         \<and> effects (snd (render \<rho> opts (snd (render \<rho> opts s)))) =
             effects s @ [Call f [content s, default_arg opts (Object [])],
                          Call f [content s, default_arg opts (Object [])]])"
  by (simp add: render_def call_def default_arg_def Let_def)

theorem render_spec_witness:
  "Object [(''title'', Str ''t'')] \<noteq> Undefined
   \<and> renderer (created (constructor ''a.txt'' 100 (Function (User 0)) 0 None)) = Function (User 0)
   \<and> fst (render echo_options (Object [(''title'', Str ''t'')])
            (created (constructor ''a.txt'' 100 (Function (User 0)) 0 None))) =
       Inr (Object [(''title'', Str ''t'')])
   \<and> effects (snd (render echo_options (Object [(''title'', Str ''t'')])
            (created (constructor ''a.txt'' 100 (Function (User 0)) 0 None)))) =
       [ReadFile ''a.txt'', Call (User 0) [Undefined, Object [(''title'', Str ''t'')]]]"
proof -
  let ?s = "created (constructor ''a.txt'' 100 (Function (User 0)) 0 None)"
  let ?o = "Object [(''title'', Str ''t'')]"
  have d: "?o \<noteq> Undefined" by simp
  have r: "renderer ?s = Function (User 0)" by (simp add: constructor_state)
  have c: "content ?s = Undefined" and e: "effects ?s = [ReadFile ''a.txt'']"
    by (simp_all add: constructor_state)
  from render_spec [of echo_options ?o ?s] d r
  have "fst (render echo_options ?o ?s) = echo_options (User 0) [content ?s, default_arg ?o (Object [])]
      \<and> snd (render echo_options ?o ?s) =
          ?s\<lparr>effects := effects ?s @ [Call (User 0) [content ?s, default_arg ?o (Object [])]]\<rparr>"
    by blast
  then have "fst (render echo_options ?o ?s) = Inr ?o
      \<and> effects (snd (render echo_options ?o ?s)) = [ReadFile ''a.txt'', Call (User 0) [Undefined, ?o]]"
    by (simp add: c e default_arg_def echo_options_def)
  with d r show ?thesis by blast
qed

text \<open>With \<^verbatim>\<open>undefined\<close> for the options, the renderer is not given \<^verbatim>\<open>undefined\<close>.\<close>

theorem render_counterexample:
  "render echo_options Undefined (created (constructor ''a.txt'' 100 (Function (User 0)) 0 None)) \<noteq>
   call echo_options (renderer (created (constructor ''a.txt'' 100 (Function (User 0)) 0 None)))
     [content (created (constructor ''a.txt'' 100 (Function (User 0)) 0 None)), Undefined]
     (created (constructor ''a.txt'' 100 (Function (User 0)) 0 None))"
  by (simp add: render_def call_def default_arg_def Let_def echo_options_def constructor_state)

section \<open>Teardown\<close>

lemma close_keeps_closed:
  "w < length ws \<Longrightarrow> closed (ws ! w) \<Longrightarrow> closed (ws[v := (ws ! v)\<lparr>closed := True\<rparr>] ! w)"
  by (cases "v = w") simp_all

text \<open>No operation opens a watcher again: a closed one stays closed.\<close>

lemma step_closed:
  "w < length (watchers s) \<Longrightarrow> closed (watchers s ! w) \<Longrightarrow>
   w < length (watchers (snd (step \<rho> \<eta> x s))) \<and> closed (watchers (snd (step \<rho> \<eta> x s)) ! w)"
  by (cases x)
     (auto simp add: method_defs Let_def nth_append close_keeps_closed
       split: jsval.splits option.splits sum.splits prod.splits)

lemma run_closed:
  "w < length (watchers s) \<Longrightarrow> closed (watchers s ! w) \<Longrightarrow>
   w < length (watchers (run \<rho> \<eta> ops s)) \<and> closed (watchers (run \<rho> \<eta> ops s) ! w)"
proof (induction ops arbitrary: s)
  case Nil
  then show ?case by simp
next
  case (Cons x xs)
  from step_closed [OF Cons.prems, of \<rho> \<eta> x] Cons.IH [of "snd (step \<rho> \<eta> x s)"]
  show ?case by simp
qed

lemma destroy_closes:
  "watcher s = Some w \<Longrightarrow> w < length (watchers s) \<Longrightarrow>
   w < length (watchers (snd (destroy s))) \<and> closed (watchers (snd (destroy s)) ! w)"
  by (simp add: destroy_def)

text \<open>Every state an instance reaches has its watcher in the store.\<close>

lemma step_watcher_valid: "watcher_valid s \<Longrightarrow> watcher_valid (snd (step \<rho> \<eta> x s))"
  by (cases x)
     (auto simp add: watcher_valid_def method_defs Let_def
       split: jsval.splits option.splits sum.splits prod.splits)

lemma run_watcher_valid: "watcher_valid s \<Longrightarrow> watcher_valid (run \<rho> \<eta> ops s)"
  by (induction ops arbitrary: s) (simp_all add: step_watcher_valid)

lemma constructed_watcher_valid:
  "watcher_valid (run \<rho> \<eta> ops (created (constructor p wd r now None)))"
  by (rule run_watcher_valid) (simp add: watcher_valid_def constructor_state)

text \<open>With no read in flight and no open watcher, the runtime has nothing to deliver.\<close>

lemma quiescent_step:
  "quiescent s \<Longrightarrow> is_event x \<Longrightarrow> step \<rho> \<eta> x s = (Inr Undefined, s)"
  by (cases x) (auto simp add: quiescent_def emits_def list_all_length)

lemma quiescent_run:
  "quiescent s \<Longrightarrow> list_all is_event xs \<Longrightarrow> run \<rho> \<eta> xs s = s"
  by (induction xs) (simp_all add: quiescent_step)

text \<open>
  C8, as amended. \<open>destroy\<close> closes the watcher of the instance and then sets the
  content to the empty string. Right afterwards the content reads as empty; the closed
  watcher delivers neither a change nor an error, now or after any further operations;
  path, renderer, handlers and \<open>last_update\<close> are what they were. The reads in flight
  are not cancelled: each still runs its callback when it completes, which on success
  sets the content again and calls the \<open>reload\<close> handler. Once no read is in flight and
  no other watcher is open, nothing the runtime delivers changes the instance or calls
  a handler.
\<close>

theorem destroy_spec:
  "watcher s = Some w \<Longrightarrow> w < length (watchers s) \<Longrightarrow>
     destroy s =
       (Inr Undefined,
        s\<lparr>watchers := (watchers s)[w := (watchers s ! w)\<lparr>closed := True\<rparr>], content := Str []\<rparr>)
     \<and> fst (get_content (snd (destroy s))) = Inr (Str [])
     \<and> closed (watchers (snd (destroy s)) ! w)
     \<and> step \<rho> \<eta> (Watch_change w now1 now2) (snd (destroy s)) = (Inr Undefined, snd (destroy s))
     \<and> step \<rho> \<eta> (Watch_error w err) (snd (destroy s)) = (Inr Undefined, snd (destroy s))
     \<and> (\<forall>ops. \<not> emits w (run \<rho> \<eta> ops (snd (destroy s))))
     \<and> path (snd (destroy s)) = path s
     \<and> renderer (snd (destroy s)) = renderer s
     \<and> handlers (snd (destroy s)) = handlers s
     \<and> last_update (snd (destroy s)) = last_update s
     \<and> pending (snd (destroy s)) = pending s
     \<and> (0 < pending s \<longrightarrow>
          step \<rho> \<eta> (Read_done err c) (snd (destroy s)) =
            read_callback \<eta> err c ((snd (destroy s))\<lparr>pending := pending s - 1\<rparr>))
     \<and> (0 < pending s \<longrightarrow> \<not> truthy err \<longrightarrow>
          content (snd (step \<rho> \<eta> (Read_done err c) (snd (destroy s)))) = c)
     \<and> (quiescent (snd (destroy s)) \<longrightarrow>
          (\<forall>xs. list_all is_event xs \<longrightarrow> run \<rho> \<eta> xs (snd (destroy s)) = snd (destroy s)))"
proof -
  assume w: "watcher s = Some w" and len: "w < length (watchers s)"
  let ?d = "snd (destroy s)"
  have c: "w < length (watchers ?d) \<and> closed (watchers ?d ! w)"
    using destroy_closes [OF w len] .
  have perm: "\<forall>ops. \<not> emits w (run \<rho> \<eta> ops ?d)"
    using run_closed [of w ?d \<rho> \<eta>] c by (simp add: emits_def)
  have ne: "\<not> emits w ?d"
    using c by (simp add: emits_def)
  have eq: "destroy s =
       (Inr Undefined,
        s\<lparr>watchers := (watchers s)[w := (watchers s ! w)\<lparr>closed := True\<rparr>], content := Str []\<rparr>)"
    using w by (simp add: destroy_def)
  have frame: "path ?d = path s \<and> renderer ?d = renderer s
     \<and> handlers ?d = handlers s \<and> last_update ?d = last_update s \<and> pending ?d = pending s"
    by (simp add: eq)
  have gc: "fst (get_content ?d) = Inr (Str [])"
    by (simp add: eq get_content_def)
  have rd: "0 < pending s \<longrightarrow>
      step \<rho> \<eta> (Read_done err c) ?d = read_callback \<eta> err c (?d\<lparr>pending := pending s - 1\<rparr>)"
    using frame by simp
  have rc: "0 < pending s \<longrightarrow> \<not> truthy err \<longrightarrow> content (snd (step \<rho> \<eta> (Read_done err c) ?d)) = c"
    using frame
    by (auto simp add: read_callback_def call_method_def Let_def
        split: jsval.splits sum.splits prod.splits)
  have q: "quiescent ?d \<longrightarrow> (\<forall>xs. list_all is_event xs \<longrightarrow> run \<rho> \<eta> xs ?d = ?d)"
    by (simp add: quiescent_run)
  from c have cl: "closed (watchers ?d ! w)" by simp
  from ne have s1: "step \<rho> \<eta> (Watch_change w now1 now2) ?d = (Inr Undefined, ?d)"
    and s2: "step \<rho> \<eta> (Watch_error w err) ?d = (Inr Undefined, ?d)"
    by simp_all
  from eq gc cl s1 s2 perm frame rd rc q show ?thesis by blast
qed

text \<open>A new instance torn down while its first read is in flight, and one torn down
  after that read has completed.\<close>

theorem destroy_spec_witness:
  "watcher (created (constructor ''a.txt'' 100 Undefined 0 None)) = Some 0
   \<and> 0 < length (watchers (created (constructor ''a.txt'' 100 Undefined 0 None)))
   \<and> fst (get_content (snd (destroy (created (constructor ''a.txt'' 100 Undefined 0 None))))) =
       Inr (Str [])
   \<and> \<not> emits 0 (run returns_undefined quiet [Set_content (Str ''x''), Destroy]
                  (snd (destroy (created (constructor ''a.txt'' 100 Undefined 0 None)))))
   \<and> last_update (snd (destroy (created (constructor ''a.txt'' 100 Undefined 0 None)))) = - 100
   \<and> 0 < pending (created (constructor ''a.txt'' 100 Undefined 0 None))
   \<and> \<not> truthy Null
   \<and> content (snd (step returns_undefined quiet (Read_done Null (Str ''late''))
        (snd (destroy (created (constructor ''a.txt'' 100 Undefined 0 None)))))) = Str ''late''
   \<and> watcher (run returns_undefined quiet [Read_done Null (Str ''v'')]
        (created (constructor ''a.txt'' 100 Undefined 0 None))) = Some 0
   \<and> quiescent (snd (destroy (run returns_undefined quiet [Read_done Null (Str ''v'')]
        (created (constructor ''a.txt'' 100 Undefined 0 None)))))
   \<and> list_all is_event [Watch_change 0 500 500, Read_done Null (Str ''late''), Watch_error 0 Null]
   \<and> content (run returns_undefined quiet
        [Watch_change 0 500 500, Read_done Null (Str ''late''), Watch_error 0 Null]
        (snd (destroy (run returns_undefined quiet [Read_done Null (Str ''v'')]
           (created (constructor ''a.txt'' 100 Undefined 0 None)))))) = Str []"
proof -
  let ?s = "created (constructor ''a.txt'' 100 Undefined 0 None)"
  let ?t = "run returns_undefined quiet [Read_done Null (Str ''v'')] ?s"
  let ?xs = "[Watch_change 0 500 500, Read_done Null (Str ''late''), Watch_error 0 Null]"
  have w: "watcher ?s = Some 0" and len: "0 < length (watchers ?s)"
    and lu: "last_update ?s = - 100" and p: "0 < pending ?s"
    by (simp_all add: constructor_state)
  have n: "\<not> truthy Null" by simp
  from destroy_spec [OF w len, of returns_undefined quiet _ _ Null "Str ''late''"] p n
  have a: "fst (get_content (snd (destroy ?s))) = Inr (Str [])
      \<and> \<not> emits 0 (run returns_undefined quiet [Set_content (Str ''x''), Destroy] (snd (destroy ?s)))
      \<and> last_update (snd (destroy ?s)) = last_update ?s
      \<and> content (snd (step returns_undefined quiet (Read_done Null (Str ''late'')) (snd (destroy ?s)))) =
          Str ''late''"
    by blast
  have t: "?t = ?s\<lparr>content := Str ''v'', pending := 0,
                    effects := [ReadFile ''a.txt'', Call DefaultReload [Str ''v'']]\<rparr>"
    by (simp add: constructor_state read_callback_def call_method_def invoke_def
        default_handlers_def get_prop_def Let_def)
  have wt: "watcher ?t = Some 0" and lent: "0 < length (watchers ?t)"
    unfolding t by (simp_all add: constructor_state)
  have q: "quiescent (snd (destroy ?t))"
    unfolding t by (simp add: destroy_def quiescent_def constructor_state)
  have ev: "list_all is_event ?xs" by simp
  from destroy_spec [OF wt lent, of returns_undefined quiet] q ev
  have "run returns_undefined quiet ?xs (snd (destroy ?t)) = snd (destroy ?t)
      \<and> fst (get_content (snd (destroy ?t))) = Inr (Str [])"
    by blast
  then have b: "content (run returns_undefined quiet ?xs (snd (destroy ?t))) = Str []"
    by (simp add: get_content_def)
  from w len lu p n a wt q ev b show ?thesis by simp
qed

text \<open>A read that a change started does not stop at teardown: it completes afterwards,
  the content is no longer empty, and the \<open>reload\<close> handler is called.\<close>

theorem destroy_counterexample:
  "content (run returns_undefined quiet
      [Read_done Null (Str ''v''), Watch_change 0 50 50, Destroy, Read_done Null (Str ''late'')]
      (created (constructor ''a.txt'' 100 Undefined 0 None))) = Str ''late''
   \<and> effects (run returns_undefined quiet
      [Read_done Null (Str ''v''), Watch_change 0 50 50, Destroy, Read_done Null (Str ''late'')]
      (created (constructor ''a.txt'' 100 Undefined 0 None))) =
     [ReadFile ''a.txt'', Call DefaultReload [Str ''v''], ReadFile ''a.txt'',
      Call DefaultReload [Str ''late'']]"
  by (simp add: constructor_state read_callback_def call_method_def invoke_def
      default_handlers_def get_prop_def emits_def watch_listener_def delay_check_def
      reload_content_def destroy_def default_arg_def Let_def)

section \<open>The timestamp\<close>

lemma step_watcher_delay: "watcher_delay (snd (step \<rho> \<eta> x s)) = watcher_delay s"
  by (cases x)
     (auto simp add: method_defs Let_def split: jsval.splits option.splits sum.splits prod.splits)

text \<open>Only a check that passes writes \<open>last_update\<close>, and what it writes is its second
  clock reading.\<close>

lemma step_writes_last_update:
  "last_update (snd (step \<rho> \<eta> x s)) = last_update s \<or>
   (\<exists>touch w now1 now2.
      (x = Delay_check touch now1 now2 \<or> x = Watch_change w now1 now2) \<and>
      watcher_delay s < now1 - last_update s \<and>
      last_update (snd (step \<rho> \<eta> x s)) = now2)"
  by (cases x)
     (auto simp add: method_defs Let_def split: jsval.splits option.splits sum.splits prod.splits)

lemma step_last_update_mono:
  assumes "0 \<le> watcher_delay s" and "sorted (readings x)"
  shows "last_update s \<le> last_update (snd (step \<rho> \<eta> x s))"
proof -
  from step_writes_last_update [of \<rho> \<eta> x s]
  consider "last_update (snd (step \<rho> \<eta> x s)) = last_update s"
    | touch w now1 now2 where
      "x = Delay_check touch now1 now2 \<or> x = Watch_change w now1 now2"
      "watcher_delay s < now1 - last_update s"
      "last_update (snd (step \<rho> \<eta> x s)) = now2"
    by blast
  then show ?thesis
  proof cases
    case 1
    then show ?thesis by simp
  next
    case 2
    from 2(1) assms(2) have "now1 \<le> now2" by auto
    with 2(2) assms(1) have "last_update s \<le> now2" by simp
    with 2(3) show ?thesis by simp
  qed
qed

lemma run_last_update_mono:
  "0 \<le> watcher_delay s \<Longrightarrow> sorted (concat (map readings ops)) \<Longrightarrow>
   last_update s \<le> last_update (run \<rho> \<eta> ops s)"
proof (induction ops arbitrary: s)
  case Nil
  then show ?case by simp
next
  case (Cons x xs)
  from Cons.prems(2) have sx: "sorted (readings x)" and sxs: "sorted (concat (map readings xs))"
    by (simp_all add: sorted_append)
  have "last_update s \<le> last_update (snd (step \<rho> \<eta> x s))"
    using step_last_update_mono [OF Cons.prems(1) sx] .
  moreover have "last_update (snd (step \<rho> \<eta> x s)) \<le> last_update (run \<rho> \<eta> xs (snd (step \<rho> \<eta> x s)))"
    using Cons.IH [of "snd (step \<rho> \<eta> x s)"] Cons.prems(1) sxs by (simp add: step_watcher_delay)
  ultimately show ?case by simp
qed

text \<open>
  C9, as amended. With a clock that does not go back and a \<open>watcher_delay\<close> that is not
  negative, \<open>last_update\<close> never decreases over the operations of an instance. Each
  operation leaves it as it was or sets it to a clock reading; the only operation that
  writes it is a debounce check that passes (called directly or by the watcher), and
  construction sets it first.
\<close>

theorem last_update_monotone:
  "0 \<le> watcher_delay s \<Longrightarrow> sorted (concat (map readings ops)) \<Longrightarrow>
     last_update s \<le> last_update (run \<rho> \<eta> ops s)
     \<and> (\<forall>x. last_update (snd (step \<rho> \<eta> x s)) = last_update s \<or>
            (\<exists>touch w now1 now2.
               (x = Delay_check touch now1 now2 \<or> x = Watch_change w now1 now2) \<and>
               watcher_delay s < now1 - last_update s \<and>
               last_update (snd (step \<rho> \<eta> x s)) = now2))
     \<and> (\<forall>x. sorted (readings x) \<longrightarrow> last_update s \<le> last_update (snd (step \<rho> \<eta> x s)))
     \<and> (\<forall>p r now.
          last_update (created (constructor p (watcher_delay s) r now None)) = now - watcher_delay s)"
  using run_last_update_mono [of s ops \<rho> \<eta>] step_writes_last_update [of \<rho> \<eta> _ s]
    step_last_update_mono [of s _ \<rho> \<eta>]
  by (simp add: constructor_state)

theorem last_update_monotone_witness:
  "0 \<le> watcher_delay (created (constructor ''a.txt'' 100 Undefined 0 None))
   \<and> sorted (concat (map readings [Watch_change 0 50 50, Set_content (Str ''x''), Watch_change 0 150 151,
                                      Delay_check Undefined 151 152]))
   \<and> last_update (created (constructor ''a.txt'' 100 Undefined 0 None)) = - 100
   \<and> last_update (run returns_undefined quiet
         [Watch_change 0 50 50, Set_content (Str ''x''), Watch_change 0 150 151,
          Delay_check Undefined 151 152]
         (created (constructor ''a.txt'' 100 Undefined 0 None))) = 152
   \<and> last_update (created (constructor ''a.txt'' 100 Undefined 0 None)) \<le>
       last_update (run returns_undefined quiet
         [Watch_change 0 50 50, Set_content (Str ''x''), Watch_change 0 150 151,
          Delay_check Undefined 151 152]
         (created (constructor ''a.txt'' 100 Undefined 0 None)))"
proof -
  let ?s = "created (constructor ''a.txt'' 100 Undefined 0 None)"
  let ?ops = "[Watch_change 0 50 50, Set_content (Str ''x''), Watch_change 0 150 151,
               Delay_check Undefined 151 152]"
  have d: "0 \<le> watcher_delay ?s" by (simp add: constructor_state)
  have c: "sorted (concat (map readings ?ops))" by simp
  have l: "last_update ?s = - 100" by (simp add: constructor_state)
  have r: "last_update (run returns_undefined quiet ?ops ?s) = 152"
    by (simp add: constructor_state emits_def watch_listener_def delay_check_def reload_content_def
        set_content_def default_arg_def Let_def)
  from last_update_monotone [OF d c, of returns_undefined quiet]
  have "last_update ?s \<le> last_update (run returns_undefined quiet ?ops ?s)" by blast
  with d c l r show ?thesis by blast
qed

text \<open>With a negative delay, a check that passes sets \<open>last_update\<close> back: constructed at 0
  with a delay of -1000, \<open>last_update\<close> is 1000, and a change at 5 sets it to 5.\<close>

theorem last_update_monotone_counterexample:
  "sorted (0 # concat (map readings [Watch_change 0 5 5]))
   \<and> last_update (run returns_undefined quiet [Watch_change 0 5 5]
        (created (constructor ''a.txt'' (- 1000) Undefined 0 None)))
       < last_update (created (constructor ''a.txt'' (- 1000) Undefined 0 None))"
  by (simp add: constructor_state emits_def watch_listener_def delay_check_def reload_content_def
      default_arg_def Let_def)

section \<open>A handler that is undefined\<close>

lemma invoke_keeps_slot:
  "\<forall>g this args. map_of (own this) k = Some Undefined \<longrightarrow>
       map_of (own (snd (\<eta> g this args))) k = Some Undefined \<Longrightarrow>
   map_of (own this) k = Some Undefined \<Longrightarrow>
   map_of (own (snd (invoke \<eta> g this args))) k = Some Undefined"
  by (simp add: invoke_def)

lemma handle_keeps_slot:
  "map_of (own (handlers s)) k = Some Undefined \<Longrightarrow>
   map_of (own (handlers (snd (handle type handler s)))) k = Some Undefined"
  by (auto simp add: handle_def get_prop_def put_prop_def update_conv'
      split: option.splits found.splits)

lemma call_method_keeps_slot:
  assumes "\<forall>g this args. map_of (own this) k = Some Undefined \<longrightarrow>
       map_of (own (snd (\<eta> g this args))) k = Some Undefined"
    and "map_of (own (handlers s)) k = Some Undefined"
  shows "map_of (own (handlers (snd (call_method \<eta> name args s)))) k = Some Undefined"
  using assms(2) invoke_keeps_slot [OF assms(1)]
  by (simp add: call_method_def split: jsval.splits)

lemma read_callback_keeps_slot:
  assumes "\<forall>g this args. map_of (own this) k = Some Undefined \<longrightarrow>
       map_of (own (snd (\<eta> g this args))) k = Some Undefined"
    and "map_of (own (handlers s)) k = Some Undefined"
  shows "map_of (own (handlers (snd (read_callback \<eta> err c s)))) k = Some Undefined"
proof (cases "truthy err")
  case True
  then show ?thesis
    using call_method_keeps_slot [OF assms] by (simp add: read_callback_def)
next
  case False
  have "map_of (own (handlers (s\<lparr>content := c\<rparr>))) k = Some Undefined"
    using assms(2) by simp
  from call_method_keeps_slot [OF assms(1) this, of "''reload''" "[c]"] False
  show ?thesis
    by (auto simp add: read_callback_def Let_def split: prod.splits sum.splits)
qed

lemma step_keeps_undefined_slot:
  assumes "\<forall>g this args. map_of (own this) k = Some Undefined \<longrightarrow>
       map_of (own (snd (\<eta> g this args))) k = Some Undefined"
    and "\<forall>obj \<in> set (written x). map_of (own obj) k = Some Undefined"
    and "map_of (own (handlers s)) k = Some Undefined"
  shows "map_of (own (handlers (snd (step \<rho> \<eta> x s)))) k = Some Undefined"
proof (cases x)
  case (Handle type handler)
  then show ?thesis using handle_keeps_slot [OF assms(3)] by simp
next
  case (Watch_error w err)
  then show ?thesis
    using call_method_keeps_slot [OF assms(1,3)] assms(3)
    by (simp add: watch_error_listener_def)
next
  case (Read_done err c)
  have "map_of (own (handlers (s\<lparr>pending := pending s - 1\<rparr>))) k = Some Undefined"
    using assms(3) by simp
  from read_callback_keeps_slot [OF assms(1) this] Read_done assms(3)
  show ?thesis by simp
next
  case (Caller_writes obj)
  then show ?thesis using assms(2,3) by simp
next
  case (Render opts)
  then show ?thesis using assms(3)
    by (simp add: render_def call_def Let_def split: jsval.splits)
next
  case (Watch_change w now1 now2)
  then show ?thesis using assms(3)
    by (simp add: watch_listener_def delay_check_def reload_content_def Let_def)
next
  case (Destroy)
  then show ?thesis using assms(3) by (simp add: destroy_def split: option.splits)
next
  case (Init_watcher thrown)
  then show ?thesis using assms(3) by (simp add: init_watcher_def split: option.splits)
qed (use assms(3) in \<open>simp_all add: set_content_def set_renderer_def delay_check_def
      reload_content_def get_path_def get_content_def get_last_update_def Let_def\<close>)

lemma run_keeps_undefined_slot:
  assumes "\<forall>g this args. map_of (own this) k = Some Undefined \<longrightarrow>
       map_of (own (snd (\<eta> g this args))) k = Some Undefined"
  shows "\<forall>obj \<in> set (concat (map written ops)). map_of (own obj) k = Some Undefined \<Longrightarrow>
    map_of (own (handlers s)) k = Some Undefined \<Longrightarrow>
    map_of (own (handlers (run \<rho> \<eta> ops s))) k = Some Undefined"
proof (induction ops arbitrary: s)
  case Nil
  then show ?case by simp
next
  case (Cons x xs)
  from Cons.prems(1) have wx: "\<forall>obj \<in> set (written x). map_of (own obj) k = Some Undefined"
    and wxs: "\<forall>obj \<in> set (concat (map written xs)). map_of (own obj) k = Some Undefined"
    by simp_all
  from step_keeps_undefined_slot [OF assms wx Cons.prems(2), of \<rho>]
  have "map_of (own (handlers (snd (step \<rho> \<eta> x s)))) k = Some Undefined" .
  from Cons.IH [OF wxs this] show ?case by simp
qed

text \<open>
  C10, as amended. \<open>handle\<close> does not look at the handler: on an instance where
  \<open>reload\<close> or \<open>error\<close> can still be registered, any value is accepted for it.
  Registering \<^verbatim>\<open>undefined\<close> succeeds, and from then on \<open>handle\<close> for that kind throws
  the unsupported-event error and changes nothing, after any operations in which the
  caller's own code does not write that property of \<^verbatim>\<open>#handlers\<close>: neither a handler
  while it is called, which receives the object as \<^verbatim>\<open>this\<close>, nor later code that kept
  the reference.
\<close>

theorem handle_undefined_handler:
  "k = ''reload'' \<or> k = ''error'' \<Longrightarrow> \<not> eq_undefined (get_prop (handlers s) k) \<Longrightarrow>
   \<forall>g this args. map_of (own this) k = Some Undefined \<longrightarrow>
       map_of (own (snd (\<eta> g this args))) k = Some Undefined \<Longrightarrow>
   \<forall>obj \<in> set (concat (map written ops)). map_of (own obj) k = Some Undefined \<Longrightarrow>
     (\<forall>handler. fst (handle k handler s) = Inr Undefined)
     \<and> get_prop (handlers (snd (handle k Undefined s))) k = Undefined
     \<and> (\<forall>handler.
          handle k handler (snd (handle k Undefined s)) =
            (Inl (Error (k @ '' event is not supported on LiveFile.'')), snd (handle k Undefined s)))
     \<and> (\<forall>handler.
          handle k handler (run \<rho> \<eta> ops (snd (handle k Undefined s))) =
            (Inl (Error (k @ '' event is not supported on LiveFile.'')),
             run \<rho> \<eta> ops (snd (handle k Undefined s))))"
proof -
  assume k: "k = ''reload'' \<or> k = ''error''" and d: "\<not> eq_undefined (get_prop (handlers s) k)"
    and h: "\<forall>g this args. map_of (own this) k = Some Undefined \<longrightarrow>
       map_of (own (snd (\<eta> g this args))) k = Some Undefined"
    and wr: "\<forall>obj \<in> set (concat (map written ops)). map_of (own obj) k = Some Undefined"
  let ?s1 = "snd (handle k Undefined s)"
  from k have "k \<noteq> ''__proto__''" by auto
  then have "inherited (proto (handlers s)) k \<noteq> ProtoAccessor"
    using inherited_accessor by blast
  then have "map_of (own (put_prop (handlers s) k Undefined)) k = Some Undefined"
    by (simp add: put_prop_own)
  then have slot: "map_of (own (handlers ?s1)) k = Some Undefined"
    by (simp add: handle_accepts [OF d])
  have "get_prop (handlers (run \<rho> \<eta> ops ?s1)) k = Undefined"
    using run_keeps_undefined_slot [OF h wr slot] by (simp add: get_prop_own)
  then have later: "\<forall>handler. handle k handler (run \<rho> \<eta> ops ?s1) =
      (Inl (Error (k @ '' event is not supported on LiveFile.'')), run \<rho> \<eta> ops ?s1)"
    by (simp add: handle_rejects)
  have now: "get_prop (handlers ?s1) k = Undefined"
    using slot by (simp add: get_prop_own)
  then have at_once: "\<forall>handler. handle k handler ?s1 =
      (Inl (Error (k @ '' event is not supported on LiveFile.'')), ?s1)"
    by (simp add: handle_rejects)
  have any: "\<forall>handler. fst (handle k handler s) = Inr Undefined"
    by (simp add: handle_accepts [OF d])
  from any now at_once later show ?thesis by blast
qed

text \<open>On a new instance: \<open>reload\<close> is lost, then an \<open>error\<close> handler that leaves its
  receiver alone is registered and called, and a renderer is set; \<open>reload\<close> stays lost.\<close>

theorem handle_undefined_handler_witness:
  "(''reload'' = ''reload'' \<or> ''reload'' = ''error'')
   \<and> \<not> eq_undefined (get_prop (handlers (created (constructor ''a.txt'' 100 Undefined 0 None))) ''reload'')
   \<and> (\<forall>g this args. snd (quiet g this args) = this)
   \<and> concat (map written
         [Handle ''error'' (Function (User 7)), Read_done (Str ''ENOENT'') Undefined,
          Set_renderer (Function (User 9))]) = []
   \<and> fst (handle ''reload'' Undefined (created (constructor ''a.txt'' 100 Undefined 0 None))) =
       Inr Undefined
   \<and> fst (handle ''reload'' (Function (User 0))
            (run returns_undefined quiet
               [Handle ''error'' (Function (User 7)), Read_done (Str ''ENOENT'') Undefined,
                Set_renderer (Function (User 9))]
               (snd (handle ''reload'' Undefined
                  (created (constructor ''a.txt'' 100 Undefined 0 None)))))) =
       Inl (Error ''reload event is not supported on LiveFile.'')"
proof -
  let ?s = "created (constructor ''a.txt'' 100 Undefined 0 None)"
  let ?ops = "[Handle ''error'' (Function (User 7)), Read_done (Str ''ENOENT'') Undefined,
               Set_renderer (Function (User 9))]"
  have k: "''reload'' = ''reload'' \<or> ''reload'' = ''error''" by simp
  have d: "\<not> eq_undefined (get_prop (handlers ?s) ''reload'')"
    by (simp add: constructor_state default_handlers_def get_prop_def)
  have h0: "\<forall>g this args. snd (quiet g this args) = this"
    by (simp add: quiet_def)
  have wr0: "concat (map written ?ops) = []"
    by simp
  from h0 have h: "\<forall>g this args. map_of (own this) ''reload'' = Some Undefined \<longrightarrow>
         map_of (own (snd (quiet g this args))) ''reload'' = Some Undefined"
    by simp
  from wr0 have wr: "\<forall>obj \<in> set (concat (map written ?ops)).
         map_of (own obj) ''reload'' = Some Undefined"
    by simp
  from handle_undefined_handler [OF k d h wr, of returns_undefined]
  have "fst (handle ''reload'' Undefined ?s) = Inr Undefined
     \<and> handle ''reload'' (Function (User 0))
          (run returns_undefined quiet ?ops (snd (handle ''reload'' Undefined ?s))) =
        (Inl (Error (''reload'' @ '' event is not supported on LiveFile.'')),
         run returns_undefined quiet ?ops (snd (handle ''reload'' Undefined ?s)))"
    by blast
  then have r: "fst (handle ''reload'' Undefined ?s) = Inr Undefined
     \<and> fst (handle ''reload'' (Function (User 0))
          (run returns_undefined quiet ?ops (snd (handle ''reload'' Undefined ?s)))) =
        Inl (Error ''reload event is not supported on LiveFile.'')"
    by simp
  from k d h0 wr0 r show ?thesis by blast
qed

text \<open>
  The kind comes back when a handler writes it. After \<open>reload\<close> was lost, an \<open>error\<close>
  handler written \<^verbatim>\<open>function () { this.reload = f }\<close> is registered; the first read
  fails and the handler is called; \<open>handle\<close> then accepts \<open>reload\<close> again.
\<close>

theorem handle_undefined_handler_counterexample:
  "fst (handle ''reload'' (Function (User 9))
          (run returns_undefined rebinds_reload
             [Handle ''error'' (Function (User 7)), Read_done (Str ''ENOENT'') Undefined]
             (snd (handle ''reload'' Undefined
                (created (constructor ''a.txt'' 100 Undefined 0 None)))))) =
     Inr Undefined"
  by (simp add: constructor_state handle_def read_callback_def call_method_def invoke_def
      rebinds_reload_def default_handlers_def get_prop_def put_prop_def Let_def)

end
